theory Spec2Isabelle
  imports Main "HOL-Library.Word"
begin

unbundle bit_operations_syntax

section \<open>The ownership guard (include/glutils/guard.hpp)\<close>

subsection \<open>The template parameter and the object store\<close>

text \<open>
  \<open>Guard<HandleType>\<close> uses three things of its template parameter: the static function
  \<open>HandleType::create(args...)\<close>, the static function \<open>HandleType::destroy(handle)\<close> and the
  default constructor \<open>HandleType()\<close>. None of them is defined in guard.hpp, so they are
  the fields of a record the model is parameterised by. \<open>create\<close> and \<open>destroy\<close> act on the
  state of the graphics driver, which is the type \<open>'w\<close>; \<open>'a\<close> is the type of the argument
  pack \<open>Args...\<close>.
\<close>

record ('h, 'a, 'w) HandleType =
  create :: "'a \<Rightarrow> 'w \<Rightarrow> 'h \<times> 'w"
  destroy :: "'h \<Rightarrow> 'w \<Rightarrow> 'w"
  null_handle :: 'h

text \<open>The class has one data member, \<open>HandleType m_handle\<close>.\<close>

record 'h Guard =
  m_handle :: 'h

text \<open>
  Guards are objects with an identity: \<open>operator=\<close> receives \<open>this\<close> and \<open>other\<close>, which may
  be the same object. The store is a table of objects, the address of an object being its
  index; \<open>None\<close> marks storage whose object has been destructed. \<open>destroyed\<close> is a ghost
  log: every invocation of \<open>HandleType::destroy\<close> appends its argument.
\<close>

record ('h, 'w) machine =
  objects :: "'h Guard option list"
  world :: 'w
  destroyed :: "'h list"

definition init :: "'w \<Rightarrow> ('h, 'w) machine" where
  "init w = \<lparr>objects = [], world = w, destroyed = []\<rparr>"

definition lookup :: "('h, 'w) machine \<Rightarrow> nat \<Rightarrow> 'h Guard option" where
  "lookup s a = (if a < length (objects s) then objects s ! a else None)"

definition store :: "nat \<Rightarrow> 'h Guard option \<Rightarrow> ('h, 'w) machine \<Rightarrow> ('h, 'w) machine" where
  "store a g s = s\<lparr>objects := (objects s)[a := g]\<rparr>"

text \<open>A new object gets the next address, \<open>length (objects s)\<close>.\<close>

definition allocate :: "'h Guard \<Rightarrow> ('h, 'w) machine \<Rightarrow> ('h, 'w) machine" where
  "allocate g s = s\<lparr>objects := objects s @ [Some g]\<rparr>"

text \<open>The call \<open>HandleType::destroy(h)\<close>.\<close>

definition call_destroy ::
  "('h, 'a, 'w) HandleType \<Rightarrow> 'h \<Rightarrow> ('h, 'w) machine \<Rightarrow> ('h, 'w) machine" where
  "call_destroy H h s = s\<lparr>world := destroy H h (world s), destroyed := destroyed s @ [h]\<rparr>"

subsection \<open>The member functions\<close>

text \<open>
  A member function called on an address that holds no live Guard has no defined
  behaviour in C++; the model returns \<open>None\<close> there.

  \<open>Guard(Args... args) : m_handle(HandleType::create(args...))\<close>
\<close>

definition Guard_create ::
  "('h, 'a, 'w) HandleType \<Rightarrow> 'a \<Rightarrow> ('h, 'w) machine \<Rightarrow> ('h, 'w) machine" where
  "Guard_create H args s =
     (let (h, w) = create H args (world s)
      in allocate \<lparr>m_handle = h\<rparr> (s\<lparr>world := w\<rparr>))"

text \<open>\<open>explicit Guard(HandleType handle) : m_handle(handle)\<close>\<close>

definition Guard_adopt :: "'h \<Rightarrow> ('h, 'w) machine \<Rightarrow> ('h, 'w) machine" where
  "Guard_adopt handle s = allocate \<lparr>m_handle = handle\<rparr> s"

text \<open>\<open>~Guard() { HandleType::destroy(m_handle); }\<close>\<close>

definition Guard_dtor ::
  "('h, 'a, 'w) HandleType \<Rightarrow> nat \<Rightarrow> ('h, 'w) machine \<Rightarrow> ('h, 'w) machine option" where
  "Guard_dtor H this s =
     (case lookup s this of
        None \<Rightarrow> None
      | Some g \<Rightarrow> Some (store this None (call_destroy H (m_handle g) s)))"

text \<open>\<open>getHandle\<close>, and \<open>operator*\<close>, which is the same.\<close>

definition getHandle :: "('h, 'w) machine \<Rightarrow> nat \<Rightarrow> 'h option" where
  "getHandle s this = map_option m_handle (lookup s this)"

text \<open>\<open>release() { auto copy = m_handle; m_handle = HandleType(); return copy; }\<close>\<close>

definition release ::
  "('h, 'a, 'w) HandleType \<Rightarrow> nat \<Rightarrow> ('h, 'w) machine \<Rightarrow> ('h \<times> ('h, 'w) machine) option" where
  "release H this s =
     (case lookup s this of
        None \<Rightarrow> None
      | Some g \<Rightarrow>
          (let copy = m_handle g
           in Some (copy, store this (Some (g\<lparr>m_handle := null_handle H\<rparr>)) s)))"

text \<open>\<open>reset(new_handle) { HandleType::destroy(m_handle); m_handle = new_handle; }\<close>\<close>

definition reset ::
  "('h, 'a, 'w) HandleType \<Rightarrow> nat \<Rightarrow> 'h \<Rightarrow> ('h, 'w) machine \<Rightarrow> ('h, 'w) machine option" where
  "reset H this new_handle s =
     (case lookup s this of
        None \<Rightarrow> None
      | Some g \<Rightarrow>
          Some (store this (Some (g\<lparr>m_handle := new_handle\<rparr>))
                  (call_destroy H (m_handle g) s)))"

text \<open>\<open>Guard(Guard &&other) : m_handle(other.release())\<close>\<close>

definition Guard_move ::
  "('h, 'a, 'w) HandleType \<Rightarrow> nat \<Rightarrow> ('h, 'w) machine \<Rightarrow> ('h, 'w) machine option" where
  "Guard_move H other s =
     (case release H other s of
        None \<Rightarrow> None
      | Some (h, s') \<Rightarrow> Some (allocate \<lparr>m_handle = h\<rparr> s'))"

text \<open>\<open>operator=(Guard &&other) { reset(other.release()); return *this; }\<close>\<close>

definition move_assign ::
  "('h, 'a, 'w) HandleType \<Rightarrow> nat \<Rightarrow> nat \<Rightarrow> ('h, 'w) machine \<Rightarrow> ('h, 'w) machine option" where
  "move_assign H this other s =
     (case release H other s of
        None \<Rightarrow> None
      | Some (h, s') \<Rightarrow> reset H this h s')"

subsection \<open>Sequences of operations\<close>

datatype ('h, 'a) operation =
    Construct 'a
  | Adopt 'h
  | MoveConstruct nat
  | MoveAssign nat nat
  | Release nat
  | Reset nat 'h
  | Destruct nat

fun step ::
  "('h, 'a, 'w) HandleType \<Rightarrow> ('h, 'a) operation \<Rightarrow> ('h, 'w) machine \<Rightarrow> ('h, 'w) machine option"
  where
  "step H (Construct args) s = Some (Guard_create H args s)"
| "step H (Adopt h) s = Some (Guard_adopt h s)"
| "step H (MoveConstruct other) s = Guard_move H other s"
| "step H (MoveAssign this other) s = move_assign H this other s"
| "step H (Release this) s = map_option snd (release H this s)"
| "step H (Reset this h) s = reset H this h s"
| "step H (Destruct this) s = Guard_dtor H this s"

fun run ::
  "('h, 'a, 'w) HandleType \<Rightarrow> ('h, 'a) operation list \<Rightarrow> ('h, 'w) machine \<Rightarrow>
   ('h, 'w) machine option" where
  "run H [] s = Some s"
| "run H (x # xs) s = (case step H x s of None \<Rightarrow> None | Some s' \<Rightarrow> run H xs s')"

text \<open>
  A HandleType to evaluate the template at: handles are object names, \<open>create\<close> hands out
  the next unused name, the default handle is the name 0.
\<close>

definition name_allocator :: "(nat, unit, nat) HandleType" where
  "name_allocator =
     \<lparr>create = (\<lambda>_ w. (Suc w, Suc w)), destroy = (\<lambda>_ w. w), null_handle = 0\<rparr>"

subsection \<open>Ownership bookkeeping\<close>

text \<open>The handle a slot of the store holds, as a list: empty for a destructed object.\<close>

fun held :: "'h Guard option \<Rightarrow> 'h list" where
  "held None = []"
| "held (Some g) = [m_handle g]"

text \<open>The handles held by the live Guards, one entry per live Guard, in address order.\<close>

definition owned :: "('h, 'w) machine \<Rightarrow> 'h list" where
  "owned s = concat (map held (objects s))"

text \<open>
  A handle may be given to a Guard without breaking single ownership when it is the
  default handle, or when no live Guard holds it and it was never passed to
  \<open>HandleType::destroy\<close>.
\<close>

definition fresh :: "('h, 'a, 'w) HandleType \<Rightarrow> ('h, 'w) machine \<Rightarrow> 'h \<Rightarrow> bool" where
  "fresh H s h = (h = null_handle H \<or> (h \<notin> set (owned s) \<and> h \<notin> set (destroyed s)))"

text \<open>
  The handles that enter a Guard from outside: the result of \<open>HandleType::create\<close> in the
  forwarding constructor, and the argument of the adopting constructor and of \<open>reset\<close>.
\<close>

fun input_ok ::
  "('h, 'a, 'w) HandleType \<Rightarrow> ('h, 'a) operation \<Rightarrow> ('h, 'w) machine \<Rightarrow> bool" where
  "input_ok H (Construct args) s = fresh H s (fst (create H args (world s)))"
| "input_ok H (Adopt h) s = fresh H s h"
| "input_ok H (Reset this h) s = fresh H s h"
| "input_ok H _ s = True"

fun admissible ::
  "('h, 'a, 'w) HandleType \<Rightarrow> ('h, 'a) operation list \<Rightarrow> ('h, 'w) machine \<Rightarrow> bool" where
  "admissible H [] s = True"
| "admissible H (x # xs) s =
     (input_ok H x s \<and>
      (case step H x s of None \<Rightarrow> True | Some s' \<Rightarrow> admissible H xs s'))"

text \<open>
  The invariant that the operations keep: a non-default handle is counted at most once
  among the live Guards and the destroy log together.
\<close>

definition single_owner :: "('h, 'a, 'w) HandleType \<Rightarrow> ('h, 'w) machine \<Rightarrow> bool" where
  "single_owner H s =
     (\<forall>h. h \<noteq> null_handle H \<longrightarrow> count_list (owned s) h + count_list (destroyed s) h \<le> 1)"

section \<open>The buffer wrapper (include/glutils/buffer.hpp)\<close>

subsection \<open>OpenGL scalar types\<close>

text \<open>
  \<open>GLenum\<close> and \<open>GLuint\<close> are unsigned 32-bit integers, \<open>GLsizei\<close> is a signed 32-bit
  integer, \<open>GLintptr\<close> and \<open>GLsizeiptr\<close> are signed integers of pointer width (64 bits
  here). A signed value is a word read with \<open>sint\<close>.
\<close>

type_synonym GLenum = "32 word"
type_synonym GLuint = "32 word"
type_synonym GLsizei = "32 word"
type_synonym GLintptr = "64 word"
type_synonym GLsizeiptr = "64 word"

subsection \<open>Enumerations\<close>

text \<open>
  Each \<open>enum class E : GLenum\<close> that is used as a selector is a datatype of its
  enumerators, written \<open>E_enumerator\<close> for \<open>E::enumerator\<close>, with the function that gives
  the underlying value (\<open>static_cast<GLenum>\<close>).
\<close>

datatype Parameter =
    Parameter_Access
  | Parameter_AccessFlags
  | Parameter_Immutable
  | Parameter_Mapped
  | Parameter_MapLength
  | Parameter_MapOffset
  | Parameter_Size
  | Parameter_StorageFlags
  | Parameter_Usage

fun Parameter_underlying :: "Parameter \<Rightarrow> GLenum" where
  "Parameter_underlying Parameter_Access = 0x88BB"
| "Parameter_underlying Parameter_AccessFlags = 0x911F"
| "Parameter_underlying Parameter_Immutable = 0x821F"
| "Parameter_underlying Parameter_Mapped = 0x88BC"
| "Parameter_underlying Parameter_MapLength = 0x9120"
| "Parameter_underlying Parameter_MapOffset = 0x9121"
| "Parameter_underlying Parameter_Size = 0x8764"
| "Parameter_underlying Parameter_StorageFlags = 0x8220"
| "Parameter_underlying Parameter_Usage = 0x8765"

datatype AccessMode =
    AccessMode_read_only
  | AccessMode_write_only
  | AccessMode_read_write

fun AccessMode_underlying :: "AccessMode \<Rightarrow> GLenum" where
  "AccessMode_underlying AccessMode_read_only = 0x88B8"
| "AccessMode_underlying AccessMode_write_only = 0x88B9"
| "AccessMode_underlying AccessMode_read_write = 0x88BA"

datatype Usage =
    Usage_static_draw
  | Usage_static_read
  | Usage_static_copy
  | Usage_dynamic_draw
  | Usage_dynamic_read
  | Usage_dynamic_copy
  | Usage_stream_draw
  | Usage_stream_read
  | Usage_stream_copy

fun Usage_underlying :: "Usage \<Rightarrow> GLenum" where
  "Usage_underlying Usage_static_draw = 0x88E4"
| "Usage_underlying Usage_static_read = 0x88E5"
| "Usage_underlying Usage_static_copy = 0x88E6"
| "Usage_underlying Usage_dynamic_draw = 0x88E8"
| "Usage_underlying Usage_dynamic_read = 0x88E9"
| "Usage_underlying Usage_dynamic_copy = 0x88EA"
| "Usage_underlying Usage_stream_draw = 0x88E0"
| "Usage_underlying Usage_stream_read = 0x88E1"
| "Usage_underlying Usage_stream_copy = 0x88E2"

datatype IndexedTarget =
    IndexedTarget_atomic_counter
  | IndexedTarget_transform_feedback
  | IndexedTarget_uniform
  | IndexedTarget_shader_storage

fun IndexedTarget_underlying :: "IndexedTarget \<Rightarrow> GLenum" where
  "IndexedTarget_underlying IndexedTarget_atomic_counter = 0x92C0"
| "IndexedTarget_underlying IndexedTarget_transform_feedback = 0x8C8E"
| "IndexedTarget_underlying IndexedTarget_uniform = 0x8A11"
| "IndexedTarget_underlying IndexedTarget_shader_storage = 0x90D2"

text \<open>
  \<open>AccessFlags\<close> and \<open>StorageFlags\<close> are bit masks: their values are combined with
  \<open>operator|\<close> and \<open>operator&\<close>, so a value of the type is any value of the underlying
  \<open>GLenum\<close>, and the enumerators are named constants of the type.
\<close>

datatype AccessFlags = AccessFlags_of (AccessFlags_underlying: GLenum)

definition AccessFlags_none :: AccessFlags where
  "AccessFlags_none = AccessFlags_of 0x0000"

definition AccessFlags_read :: AccessFlags where
  "AccessFlags_read = AccessFlags_of 0x0001"

definition AccessFlags_write :: AccessFlags where
  "AccessFlags_write = AccessFlags_of 0x0002"

definition AccessFlags_persistent :: AccessFlags where
  "AccessFlags_persistent = AccessFlags_of 0x0040"

definition AccessFlags_coherent :: AccessFlags where
  "AccessFlags_coherent = AccessFlags_of 0x0080"

definition AccessFlags_invalidate_range :: AccessFlags where
  "AccessFlags_invalidate_range = AccessFlags_of 0x0004"

definition AccessFlags_invalidate_buffer :: AccessFlags where
  "AccessFlags_invalidate_buffer = AccessFlags_of 0x0008"

definition AccessFlags_flush_explicit :: AccessFlags where
  "AccessFlags_flush_explicit = AccessFlags_of 0x0010"

definition AccessFlags_unsynchronized :: AccessFlags where
  "AccessFlags_unsynchronized = AccessFlags_of 0x0020"

datatype StorageFlags = StorageFlags_of (StorageFlags_underlying: GLenum)

definition StorageFlags_none :: StorageFlags where
  "StorageFlags_none = StorageFlags_of 0x0000"

definition StorageFlags_dynamic_storage :: StorageFlags where
  "StorageFlags_dynamic_storage = StorageFlags_of 0x0100"

definition StorageFlags_map_read :: StorageFlags where
  "StorageFlags_map_read = StorageFlags_of 0x0001"

definition StorageFlags_map_write :: StorageFlags where
  "StorageFlags_map_write = StorageFlags_of 0x0002"

definition StorageFlags_map_persistent :: StorageFlags where
  "StorageFlags_map_persistent = StorageFlags_of 0x0040"

definition StorageFlags_map_coherent :: StorageFlags where
  "StorageFlags_map_coherent = StorageFlags_of 0x0080"

definition StorageFlags_client_storage :: StorageFlags where
  "StorageFlags_client_storage = StorageFlags_of 0x0200"

text \<open>
  Modelled from the spec: the OpenGL constants that the specification names together with
  their values. They come from the OpenGL header, which is not among the sources modelled
  here.
\<close>

definition GL_BUFFER_SIZE :: GLenum where
  "GL_BUFFER_SIZE = 0x8764"

definition GL_READ_ONLY :: GLenum where
  "GL_READ_ONLY = 0x88B8"

definition GL_MAP_READ_BIT :: GLenum where
  "GL_MAP_READ_BIT = 0x0001"

text \<open>
  The other OpenGL constants that the enumerators of buffer.hpp stand in for. The OpenGL
  header that defines them is not among the sources modelled here, and the specification
  does not give their values: each constant has the value that the OpenGL registry of
  Khronos assigns to it (header \<open>glcorearb.h\<close>). The comments of buffer.hpp name the
  constant behind each enumerator of \<open>Parameter\<close> (\<open>GL_BUFFER_ACCESS\<close> for \<open>Access\<close>, and so
  on); for the other enumerations the constant is the one of the OpenGL function the
  enumeration is the parameter of (\<open>glMapNamedBuffer\<close>, \<open>glMapNamedBufferRange\<close>,
  \<open>glNamedBufferData\<close>, \<open>glNamedBufferStorage\<close>, \<open>glBindBufferRange\<close>).
\<close>

definition GL_BUFFER_ACCESS :: GLenum where
  "GL_BUFFER_ACCESS = 0x88BB"

definition GL_BUFFER_ACCESS_FLAGS :: GLenum where
  "GL_BUFFER_ACCESS_FLAGS = 0x911F"

definition GL_BUFFER_IMMUTABLE_STORAGE :: GLenum where
  "GL_BUFFER_IMMUTABLE_STORAGE = 0x821F"

definition GL_BUFFER_MAPPED :: GLenum where
  "GL_BUFFER_MAPPED = 0x88BC"

definition GL_BUFFER_MAP_LENGTH :: GLenum where
  "GL_BUFFER_MAP_LENGTH = 0x9120"

definition GL_BUFFER_MAP_OFFSET :: GLenum where
  "GL_BUFFER_MAP_OFFSET = 0x9121"

definition GL_BUFFER_STORAGE_FLAGS :: GLenum where
  "GL_BUFFER_STORAGE_FLAGS = 0x8220"

definition GL_BUFFER_USAGE :: GLenum where
  "GL_BUFFER_USAGE = 0x8765"

definition GL_WRITE_ONLY :: GLenum where
  "GL_WRITE_ONLY = 0x88B9"

definition GL_READ_WRITE :: GLenum where
  "GL_READ_WRITE = 0x88BA"

definition GL_MAP_WRITE_BIT :: GLenum where
  "GL_MAP_WRITE_BIT = 0x0002"

definition GL_MAP_INVALIDATE_RANGE_BIT :: GLenum where
  "GL_MAP_INVALIDATE_RANGE_BIT = 0x0004"

definition GL_MAP_INVALIDATE_BUFFER_BIT :: GLenum where
  "GL_MAP_INVALIDATE_BUFFER_BIT = 0x0008"

definition GL_MAP_FLUSH_EXPLICIT_BIT :: GLenum where
  "GL_MAP_FLUSH_EXPLICIT_BIT = 0x0010"

definition GL_MAP_UNSYNCHRONIZED_BIT :: GLenum where
  "GL_MAP_UNSYNCHRONIZED_BIT = 0x0020"

definition GL_MAP_PERSISTENT_BIT :: GLenum where
  "GL_MAP_PERSISTENT_BIT = 0x0040"

definition GL_MAP_COHERENT_BIT :: GLenum where
  "GL_MAP_COHERENT_BIT = 0x0080"

definition GL_DYNAMIC_STORAGE_BIT :: GLenum where
  "GL_DYNAMIC_STORAGE_BIT = 0x0100"

definition GL_CLIENT_STORAGE_BIT :: GLenum where
  "GL_CLIENT_STORAGE_BIT = 0x0200"

definition GL_STREAM_DRAW :: GLenum where
  "GL_STREAM_DRAW = 0x88E0"

definition GL_STREAM_READ :: GLenum where
  "GL_STREAM_READ = 0x88E1"

definition GL_STREAM_COPY :: GLenum where
  "GL_STREAM_COPY = 0x88E2"

definition GL_STATIC_DRAW :: GLenum where
  "GL_STATIC_DRAW = 0x88E4"

definition GL_STATIC_READ :: GLenum where
  "GL_STATIC_READ = 0x88E5"

definition GL_STATIC_COPY :: GLenum where
  "GL_STATIC_COPY = 0x88E6"

definition GL_DYNAMIC_DRAW :: GLenum where
  "GL_DYNAMIC_DRAW = 0x88E8"

definition GL_DYNAMIC_READ :: GLenum where
  "GL_DYNAMIC_READ = 0x88E9"

definition GL_DYNAMIC_COPY :: GLenum where
  "GL_DYNAMIC_COPY = 0x88EA"

definition GL_ATOMIC_COUNTER_BUFFER :: GLenum where
  "GL_ATOMIC_COUNTER_BUFFER = 0x92C0"

definition GL_TRANSFORM_FEEDBACK_BUFFER :: GLenum where
  "GL_TRANSFORM_FEEDBACK_BUFFER = 0x8C8E"

definition GL_UNIFORM_BUFFER :: GLenum where
  "GL_UNIFORM_BUFFER = 0x8A11"

definition GL_SHADER_STORAGE_BUFFER :: GLenum where
  "GL_SHADER_STORAGE_BUFFER = 0x90D2"

text \<open>
  Modelled from the spec: \<open>operator|\<close> and \<open>operator&\<close> on \<open>AccessFlags\<close> and on
  \<open>StorageFlags\<close>. buffer.hpp declares the four operators; their definitions are in
  buffer.cpp, which is not among the sources modelled here. The specification has them
  compute the bitwise
  OR and the bitwise AND of the underlying \<open>GLenum\<close> values.
\<close>

definition AccessFlags_or :: "AccessFlags \<Rightarrow> AccessFlags \<Rightarrow> AccessFlags" where
  "AccessFlags_or l r = AccessFlags_of (AccessFlags_underlying l OR AccessFlags_underlying r)"

definition AccessFlags_and :: "AccessFlags \<Rightarrow> AccessFlags \<Rightarrow> AccessFlags" where
  "AccessFlags_and l r = AccessFlags_of (AccessFlags_underlying l AND AccessFlags_underlying r)"

definition StorageFlags_or :: "StorageFlags \<Rightarrow> StorageFlags \<Rightarrow> StorageFlags" where
  "StorageFlags_or l r =
     StorageFlags_of (StorageFlags_underlying l OR StorageFlags_underlying r)"

definition StorageFlags_and :: "StorageFlags \<Rightarrow> StorageFlags \<Rightarrow> StorageFlags" where
  "StorageFlags_and l r =
     StorageFlags_of (StorageFlags_underlying l AND StorageFlags_underlying r)"

subsection \<open>Handles and ranges\<close>

text \<open>
  \<open>BufferHandle\<close> derives from \<open>Handle\<close> (handle.hpp, not modelled). The code here uses one
  thing of it: \<open>getName()\<close>, whose result is stored in a \<open>std::vector<GLuint>\<close>.
\<close>

record BufferHandle =
  getName :: GLuint

text \<open>\<open>struct Range { GLintptr offset{0}; GLsizeiptr size{0}; }\<close>\<close>

record Range =
  offset :: GLintptr
  size' :: GLsizeiptr

subsection \<open>The overloads that take a Range\<close>

text \<open>
  buffer.hpp declares \<open>write\<close>, \<open>read\<close>, \<open>mapRange\<close> and \<open>bindRange\<close> on an offset and a
  size; buffer.cpp, which defines them, is not modelled. They are the fields of a record
  the overloads are parameterised by. \<open>'p\<close> is the type of \<open>void *\<close> pointers and \<open>'w\<close> the
  state of the driver and of host memory; the first argument is \<open>*this\<close>. The field for
  \<open>write\<close> is \<open>write'\<close>, \<open>write\<close> being a keyword of Isabelle.
\<close>

record ('p, 'w) BufferHandle_methods =
  write' :: "BufferHandle \<Rightarrow> GLintptr \<Rightarrow> GLsizeiptr \<Rightarrow> 'p \<Rightarrow> 'w \<Rightarrow> 'w"
  read :: "BufferHandle \<Rightarrow> GLintptr \<Rightarrow> GLsizeiptr \<Rightarrow> 'p \<Rightarrow> 'w \<Rightarrow> 'w"
  mapRange :: "BufferHandle \<Rightarrow> GLintptr \<Rightarrow> GLsizeiptr \<Rightarrow> AccessFlags \<Rightarrow> 'w \<Rightarrow> 'p \<times> 'w"
  bindRange ::
    "BufferHandle \<Rightarrow> IndexedTarget \<Rightarrow> GLuint \<Rightarrow> GLintptr \<Rightarrow> GLsizeiptr \<Rightarrow> 'w \<Rightarrow> 'w"

text \<open>\<open>void write(Range range, const void *data) const { write(range.offset, range.size, data); }\<close>\<close>

definition write_Range ::
  "('p, 'w) BufferHandle_methods \<Rightarrow> BufferHandle \<Rightarrow> Range \<Rightarrow> 'p \<Rightarrow> 'w \<Rightarrow> 'w" where
  "write_Range M this range' data = write' M this (offset range') (size' range') data"

text \<open>\<open>void read(Range range, void *data) const { read(range.offset, range.size, data); }\<close>\<close>

definition read_Range ::
  "('p, 'w) BufferHandle_methods \<Rightarrow> BufferHandle \<Rightarrow> Range \<Rightarrow> 'p \<Rightarrow> 'w \<Rightarrow> 'w" where
  "read_Range M this range' data = read M this (offset range') (size' range') data"

text \<open>\<open>mapRange(Range range, AccessFlags access) { return mapRange(range.offset, range.size, access); }\<close>\<close>

definition mapRange_Range ::
  "('p, 'w) BufferHandle_methods \<Rightarrow> BufferHandle \<Rightarrow> Range \<Rightarrow> AccessFlags \<Rightarrow> 'w \<Rightarrow> 'p \<times> 'w"
  where
  "mapRange_Range M this range' access = mapRange M this (offset range') (size' range') access"

text \<open>\<open>bindRange(target, index, Range range) { bindRange(target, index, range.offset, range.size); }\<close>\<close>

definition bindRange_Range ::
  "('p, 'w) BufferHandle_methods \<Rightarrow> BufferHandle \<Rightarrow> IndexedTarget \<Rightarrow> GLuint \<Rightarrow> Range \<Rightarrow>
   'w \<Rightarrow> 'w" where
  "bindRange_Range M this target index range' =
     bindRange M this target index (offset range') (size' range')"

subsection \<open>bindRanges\<close>

text \<open>
  The local variables of \<open>bindRanges\<close>: three vectors and the counter \<open>GLsizei count\<close>.
\<close>

record bindRanges_locals =
  buffers :: "GLuint list"
  offsets :: "GLintptr list"
  sizes :: "GLintptr list"
  count :: GLsizei

text \<open>
  The loop \<open>while (iter != end)\<close> over the iterator range, which is the list of the
  elements between \<open>begin\<close> and \<open>end\<close>. \<open>count++\<close> increments a 32-bit signed integer.
  Past \<open>2 ^ 31 - 1\<close> C++ leaves the result undefined; the model takes the two's-complement
  result of the machine's increment, which is the addition on the word.
\<close>

fun bindRanges_loop ::
  "(BufferHandle \<times> Range) list \<Rightarrow> bindRanges_locals \<Rightarrow> bindRanges_locals" where
  "bindRanges_loop [] v = v"
| "bindRanges_loop ((buffer, range') # rest) v =
     bindRanges_loop rest
       (v\<lparr>buffers := buffers v @ [getName buffer],
          offsets := offsets v @ [offset range'],
          sizes := sizes v @ [size' range'],
          count := count v + 1\<rparr>)"

text \<open>
  \<open>s_bindRange\<close> is a private static function that buffer.hpp declares and buffer.cpp
  defines. A call of it is recorded with its six arguments, the three arrays as the
  contents of the vectors whose \<open>data()\<close> is passed. \<open>bindRanges\<close> returns the calls it
  makes, in order.
\<close>

datatype s_bindRange_call =
  s_bindRange
    (call_target: IndexedTarget)
    (call_first_binding: GLuint)
    (call_count: GLsizei)
    (call_buffers: "GLuint list")
    (call_offsets: "GLintptr list")
    (call_sizes: "GLintptr list")

definition bindRanges ::
  "IndexedTarget \<Rightarrow> GLuint \<Rightarrow> (BufferHandle \<times> Range) list \<Rightarrow> s_bindRange_call list" where
  "bindRanges target first_binding xs =
     (let v = bindRanges_loop xs \<lparr>buffers = [], offsets = [], sizes = [], count = 0\<rparr>
      in [s_bindRange target first_binding (count v) (buffers v) (offsets v) (sizes v)])"

section \<open>The vertex array wrapper (include/glutils/vertex_array.hpp)\<close>

text \<open>\<open>enum class AttribSize { one = 1, two = 2, three = 3, four = 4 }\<close>, of underlying type \<open>int\<close>.\<close>

datatype AttribSize =
    AttribSize_one
  | AttribSize_two
  | AttribSize_three
  | AttribSize_four

fun AttribSize_underlying :: "AttribSize \<Rightarrow> int" where
  "AttribSize_underlying AttribSize_one = 1"
| "AttribSize_underlying AttribSize_two = 2"
| "AttribSize_underlying AttribSize_three = 3"
| "AttribSize_underlying AttribSize_four = 4"

text \<open>
  \<open>AttribType\<close> gives each enumerator the value of a macro of the OpenGL header, which
  is not among the sources modelled here. The macros are the fields of a record the
  underlying value is parameterised by.
\<close>

record GL_macros =
  GL_BYTE :: int
  GL_UNSIGNED_BYTE :: int
  GL_SHORT :: int
  GL_UNSIGNED_SHORT :: int
  GL_INT :: int
  GL_UNSIGNED_INT :: int
  GL_FIXED :: int
  GL_FLOAT :: int
  GL_HALF_FLOAT :: int
  GL_DOUBLE :: int
  GL_INT_2_10_10_10_REV :: int
  GL_UNSIGNED_INT_2_10_10_10_REV :: int
  GL_UNSIGNED_INT_10F_11F_11F_REV :: int

datatype AttribType =
    AttribType_byte
  | AttribType_ubyte
  | AttribType_short
  | AttribType_ushort
  | AttribType_int
  | AttribType_uint
  | AttribType_fixed
  | AttribType_float
  | AttribType_half_float
  | AttribType_double
  | AttribType_int_2_10_10_10_rev
  | AttribType_uint_2_10_10_10_rev
  | AttribType_uint_10f_11f_11f_rev

fun AttribType_underlying :: "GL_macros \<Rightarrow> AttribType \<Rightarrow> int" where
  "AttribType_underlying gl AttribType_byte = GL_BYTE gl"
| "AttribType_underlying gl AttribType_ubyte = GL_UNSIGNED_BYTE gl"
| "AttribType_underlying gl AttribType_short = GL_SHORT gl"
| "AttribType_underlying gl AttribType_ushort = GL_UNSIGNED_SHORT gl"
| "AttribType_underlying gl AttribType_int = GL_INT gl"
| "AttribType_underlying gl AttribType_uint = GL_UNSIGNED_INT gl"
| "AttribType_underlying gl AttribType_fixed = GL_FIXED gl"
| "AttribType_underlying gl AttribType_float = GL_FLOAT gl"
| "AttribType_underlying gl AttribType_half_float = GL_HALF_FLOAT gl"
| "AttribType_underlying gl AttribType_double = GL_DOUBLE gl"
| "AttribType_underlying gl AttribType_int_2_10_10_10_rev = GL_INT_2_10_10_10_REV gl"
| "AttribType_underlying gl AttribType_uint_2_10_10_10_rev = GL_UNSIGNED_INT_2_10_10_10_REV gl"
| "AttribType_underlying gl AttribType_uint_10f_11f_11f_rev = GL_UNSIGNED_INT_10F_11F_11F_REV gl"

section \<open>Properties of the ownership guard\<close>

subsection \<open>Auxiliary facts about the store\<close>

lemma count_held_update:
  "i < length xs \<Longrightarrow>
   count_list (concat (map held (xs[i := v]))) h + count_list (held (xs ! i)) h =
   count_list (concat (map held xs)) h + count_list (held v) h"
proof (induction xs arbitrary: i)
  case Nil
  then show ?case by simp
next
  case (Cons x xs)
  then show ?case by (cases i) auto
qed

lemma count_owned_store:
  "lookup s a = Some g \<Longrightarrow>
   count_list (owned (store a v s)) h + count_list [m_handle g] h =
   count_list (owned s) h + count_list (held v) h"
  using count_held_update [of a "objects s" v h]
  by (auto simp: lookup_def owned_def store_def split: if_splits)

lemma owned_allocate: "owned (allocate g s) = owned s @ [m_handle g]"
  by (simp add: owned_def allocate_def)

lemma owned_call_destroy: "owned (call_destroy H h s) = owned s"
  by (simp add: owned_def call_destroy_def)

lemma destroyed_simps:
  "destroyed (store a v s) = destroyed s"
  "destroyed (allocate g s) = destroyed s"
  "destroyed (call_destroy H h s) = destroyed s @ [h]"
  by (simp_all add: store_def allocate_def call_destroy_def)

lemma lookup_call_destroy: "lookup (call_destroy H h s) a = lookup s a"
  by (simp add: lookup_def call_destroy_def)

lemma lookup_owned: "lookup s a = Some g \<Longrightarrow> m_handle g \<in> set (owned s)"
proof -
  assume "lookup s a = Some g"
  then have "Some g \<in> set (objects s)"
    by (auto simp: lookup_def split: if_splits) (metis nth_mem)
  then show ?thesis
    by (auto simp: owned_def intro!: bexI [of _ "Some g"])
qed

subsection \<open>Every operation keeps the invariant\<close>

lemma step_single_owner:
  assumes "single_owner H s" "input_ok H x s" "step H x s = Some s'"
  shows "single_owner H s'"
proof (cases x)
  case (Construct args)
  with assms show ?thesis
    by (auto simp: single_owner_def Guard_create_def fresh_def owned_allocate destroyed_simps
          owned_def allocate_def split: prod.splits)
next
  case (Adopt h)
  with assms show ?thesis
    by (auto simp: single_owner_def Guard_adopt_def fresh_def owned_allocate destroyed_simps)
next
  case (MoveConstruct other)
  with assms obtain g where g: "lookup s other = Some g"
    and s': "s' = allocate \<lparr>m_handle = m_handle g\<rparr>
                   (store other (Some (g\<lparr>m_handle := null_handle H\<rparr>)) s)"
    by (auto simp: Guard_move_def release_def Let_def split: option.splits)
  show ?thesis unfolding single_owner_def
  proof (intro allI impI)
    fix h assume h: "h \<noteq> null_handle H"
    from count_owned_store [OF g, of "Some (g\<lparr>m_handle := null_handle H\<rparr>)" h] h
      assms(1) [unfolded single_owner_def, rule_format, OF h]
    show "count_list (owned s') h + count_list (destroyed s') h \<le> 1"
      by (auto simp: s' owned_allocate destroyed_simps split: if_splits)
  qed
next
  case (MoveAssign this other)
  let ?s1 = "store other (Some (g\<lparr>m_handle := null_handle H\<rparr>)) s"
  from MoveAssign assms obtain g g0 where g: "lookup s other = Some g"
    and g0: "lookup (store other (Some (g\<lparr>m_handle := null_handle H\<rparr>)) s) this = Some g0"
    and s': "s' = store this (Some (g0\<lparr>m_handle := m_handle g\<rparr>))
                   (call_destroy H (m_handle g0)
                      (store other (Some (g\<lparr>m_handle := null_handle H\<rparr>)) s))"
    by (auto simp: move_assign_def release_def reset_def Let_def split: option.splits)
  have g0': "lookup (call_destroy H (m_handle g0)
                      (store other (Some (g\<lparr>m_handle := null_handle H\<rparr>)) s)) this = Some g0"
    using g0 by (simp add: lookup_call_destroy)
  show ?thesis unfolding single_owner_def
  proof (intro allI impI)
    fix h assume h: "h \<noteq> null_handle H"
    from count_owned_store [OF g, of "Some (g\<lparr>m_handle := null_handle H\<rparr>)" h]
      count_owned_store [OF g0', of "Some (g0\<lparr>m_handle := m_handle g\<rparr>)" h] h
      assms(1) [unfolded single_owner_def, rule_format, OF h]
    show "count_list (owned s') h + count_list (destroyed s') h \<le> 1"
      by (auto simp: s' owned_call_destroy destroyed_simps split: if_splits)
  qed
next
  case (Release this)
  with assms obtain g where g: "lookup s this = Some g"
    and s': "s' = store this (Some (g\<lparr>m_handle := null_handle H\<rparr>)) s"
    by (auto simp: release_def Let_def split: option.splits)
  show ?thesis unfolding single_owner_def
  proof (intro allI impI)
    fix h assume h: "h \<noteq> null_handle H"
    from count_owned_store [OF g, of "Some (g\<lparr>m_handle := null_handle H\<rparr>)" h] h
      assms(1) [unfolded single_owner_def, rule_format, OF h]
    show "count_list (owned s') h + count_list (destroyed s') h \<le> 1"
      by (auto simp: s' destroyed_simps split: if_splits)
  qed
next
  case (Reset this new)
  with assms obtain g where g: "lookup s this = Some g"
    and s': "s' = store this (Some (g\<lparr>m_handle := new\<rparr>)) (call_destroy H (m_handle g) s)"
    and new: "fresh H s new"
    by (auto simp: reset_def split: option.splits)
  have g': "lookup (call_destroy H (m_handle g) s) this = Some g"
    using g by (simp add: lookup_call_destroy)
  show ?thesis unfolding single_owner_def
  proof (intro allI impI)
    fix h assume h: "h \<noteq> null_handle H"
    from count_owned_store [OF g', of "Some (g\<lparr>m_handle := new\<rparr>)" h] h new lookup_owned [OF g]
      assms(1) [unfolded single_owner_def, rule_format, OF h]
    show "count_list (owned s') h + count_list (destroyed s') h \<le> 1"
      by (auto simp: s' owned_call_destroy destroyed_simps fresh_def split: if_splits)
  qed
next
  case (Destruct this)
  with assms obtain g where g: "lookup s this = Some g"
    and s': "s' = store this None (call_destroy H (m_handle g) s)"
    by (auto simp: Guard_dtor_def split: option.splits)
  have g': "lookup (call_destroy H (m_handle g) s) this = Some g"
    using g by (simp add: lookup_call_destroy)
  show ?thesis unfolding single_owner_def
  proof (intro allI impI)
    fix h assume h: "h \<noteq> null_handle H"
    from count_owned_store [OF g', of "None" h] h
      assms(1) [unfolded single_owner_def, rule_format, OF h]
    show "count_list (owned s') h + count_list (destroyed s') h \<le> 1"
      by (auto simp: s' owned_call_destroy destroyed_simps split: if_splits)
  qed
qed

lemma run_single_owner:
  "single_owner H s \<Longrightarrow> admissible H xs s \<Longrightarrow> run H xs s = Some s' \<Longrightarrow> single_owner H s'"
proof (induction xs arbitrary: s)
  case Nil
  then show ?case by simp
next
  case (Cons x xs)
  then show ?case by (auto split: option.splits dest: step_single_owner)
qed

lemma admissible_take: "admissible H xs s \<Longrightarrow> admissible H (take n xs) s"
proof (induction xs arbitrary: n s)
  case Nil
  then show ?case by simp
next
  case (Cons x xs)
  then show ?case by (cases n) (auto split: option.splits)
qed

lemma single_owner_init: "single_owner H (init w)"
  by (simp add: single_owner_def init_def owned_def)

lemmas guard_defs =
  init_def lookup_def store_def allocate_def call_destroy_def Guard_create_def Guard_adopt_def
  Guard_dtor_def getHandle_def release_def reset_def Guard_move_def move_assign_def
  owned_def fresh_def name_allocator_def

subsection \<open>Single ownership over a sequence of operations\<close>

text \<open>
  C1, as the specification states it, fails: \<open>reset\<close> stores whatever handle it is given,
  also one that another live Guard holds. Two Guards are constructed and get the handles
  1 and 2; the second is reset to the handle of the first; both are destructed. After the
  reset two live Guards hold the handle 1, and \<open>destroy\<close> is invoked on it twice.
\<close>

theorem shared_handle_destroyed_twice:
  "map_option owned
     (run name_allocator [Construct (), Construct (), Reset 1 1] (init 0)) = Some [1, 1]
   \<and> map_option destroyed
     (run name_allocator [Construct (), Construct (), Reset 1 1, Destruct 0, Destruct 1] (init 0))
       = Some [2, 1, 1]"
  by (simp add: guard_defs)

text \<open>
  C1, amended: over every sequence of operations that starts with no Guard and in which
  each handle entering a Guard from outside (returned by \<open>create\<close>, or passed to the
  adopting constructor or to \<open>reset\<close>) is the default handle or a handle that no live Guard
  holds and that was never destroyed, at any time (after any number \<open>n\<close> of the operations)
  each handle other than the default one is held by at most one live Guard, and \<open>destroy\<close>
  has been invoked on it at most once.
\<close>

theorem guard_single_owner_destroyed_once:
  assumes "admissible H xs (init w)"
    and "run H (take n xs) (init w) = Some s"
    and "h \<noteq> null_handle H"
  shows "count_list (owned s) h \<le> 1 \<and> count_list (destroyed s) h \<le> 1"
proof -
  have "single_owner H s"
    using single_owner_init admissible_take [OF assms(1)] assms(2) by (rule run_single_owner)
  then have "count_list (owned s) h + count_list (destroyed s) h \<le> 1"
    using assms(3) by (simp add: single_owner_def)
  then show ?thesis by simp
qed

theorem guard_single_owner_destroyed_once_witness:
  "admissible name_allocator
     [Construct (), Construct (), MoveAssign 0 1, Release 0, Adopt 2, Destruct 0, Destruct 2]
     (init 0)
   \<and> run name_allocator
       (take 7 [Construct (), Construct (), MoveAssign 0 1, Release 0, Adopt 2, Destruct 0,
                Destruct 2]) (init 0)
     = Some \<lparr>objects = [None, Some \<lparr>m_handle = 0\<rparr>, None], world = 2, destroyed = [1, 0, 2]\<rparr>
   \<and> (2 :: nat) \<noteq> null_handle name_allocator
   \<and> count_list (owned \<lparr>objects = [None, Some \<lparr>m_handle = 0\<rparr>, None], world = 2 :: nat,
                         destroyed = [1, 0, 2 :: nat]\<rparr>) 2 \<le> 1
   \<and> count_list (destroyed \<lparr>objects = [None, Some \<lparr>m_handle = 0\<rparr>, None], world = 2 :: nat,
                             destroyed = [1, 0, 2 :: nat]\<rparr>) 2 \<le> 1"
proof -
  have a: "admissible name_allocator
     [Construct (), Construct (), MoveAssign 0 1, Release 0, Adopt 2, Destruct 0, Destruct 2]
     (init 0)"
    by (simp add: guard_defs)
  have r: "run name_allocator
       (take 7 [Construct (), Construct (), MoveAssign 0 1, Release 0, Adopt 2, Destruct 0,
                Destruct 2]) (init 0)
     = Some \<lparr>objects = [None, Some \<lparr>m_handle = 0\<rparr>, None], world = 2, destroyed = [1, 0, 2]\<rparr>"
    by (simp add: guard_defs)
  have n: "(2 :: nat) \<noteq> null_handle name_allocator"
    by (simp add: name_allocator_def)
  from guard_single_owner_destroyed_once [OF a r n] a r n show ?thesis
    by blast
qed

subsection \<open>Construction and destruction\<close>

text \<open>
  C2: for every argument list \<open>args\<close>, the forwarding constructor makes one call of
  \<open>HandleType::create(args...)\<close> and the new Guard holds exactly the handle that call
  returned, without any call of \<open>destroy\<close>; the destructor of a live Guard invokes
  \<open>HandleType::destroy\<close> once, on the handle the Guard holds at that moment, and ends the
  Guard's life; so a Guard destructed right after its construction destroys the handle it
  created.
\<close>

theorem guard_lifetime:
  "lookup (Guard_create H args s) (length (objects s)) =
     Some \<lparr>m_handle = fst (create H args (world s))\<rparr>
   \<and> world (Guard_create H args s) = snd (create H args (world s))
   \<and> destroyed (Guard_create H args s) = destroyed s
   \<and> (lookup s this = Some g \<longrightarrow>
        Guard_dtor H this s =
          Some (s\<lparr>objects := (objects s)[this := None],
                  world := destroy H (m_handle g) (world s),
                  destroyed := destroyed s @ [m_handle g]\<rparr>))
   \<and> map_option destroyed (Guard_dtor H (length (objects s)) (Guard_create H args s)) =
        Some (destroyed s @ [fst (create H args (world s))])"
  by (simp add: Guard_create_def Guard_dtor_def allocate_def lookup_def store_def
        call_destroy_def split: prod.splits)

theorem guard_lifetime_witness:
  "lookup (Guard_adopt 7 (init 0)) 0 = Some \<lparr>m_handle = 7 :: nat\<rparr>
   \<and> Guard_dtor name_allocator 0 (Guard_adopt 7 (init 0)) =
       Some \<lparr>objects = [None], world = 0, destroyed = [7]\<rparr>
   \<and> lookup (Guard_create name_allocator () (init 0)) 0 = Some \<lparr>m_handle = 1\<rparr>
   \<and> map_option destroyed (Guard_dtor name_allocator 0 (Guard_create name_allocator () (init 0)))
       = Some [1]"
  using guard_lifetime [of name_allocator "()" "Guard_adopt 7 (init 0)" 0 "\<lparr>m_handle = 7\<rparr>"]
    guard_lifetime [of name_allocator "()" "init 0" 0 "\<lparr>m_handle = 7\<rparr>"]
  by (simp add: guard_defs)

subsection \<open>Moves\<close>

text \<open>
  C3, as the specification states it, fails for a pair of Guards that hold the same
  handle, which the adopting constructor allows: two Guards adopt the handle 5, and the
  move assignment of the second to the first invokes \<open>destroy\<close> on 5, the handle it
  transfers. It also fails when source and destination are the same Guard: the Guard
  adopts the handle 5 and is move-assigned to itself; afterwards it holds 5, not the
  default handle 0, and \<open>destroy\<close> was invoked on 0, not on the handle 5 it held before.
\<close>

theorem move_assign_destroys_transferred_handle:
  "getHandle (Guard_adopt 5 (Guard_adopt 5 (init 0))) 1 = Some (5 :: nat)
   \<and> map_option destroyed
        (move_assign name_allocator 0 1 (Guard_adopt 5 (Guard_adopt 5 (init 0)))) = Some [5]
   \<and> null_handle name_allocator = 0
   \<and> move_assign name_allocator 0 0 (Guard_adopt 5 (init 0)) =
        Some \<lparr>objects = [Some \<lparr>m_handle = 5\<rparr>], world = 0, destroyed = [0]\<rparr>"
  by (simp add: guard_defs)

text \<open>
  C3, amended: move construction from a live Guard, and move assignment between two
  different live Guards, transfer ownership: afterwards the destination holds the handle
  the source held before the move and the source holds the default (null) handle. Move
  construction invokes \<open>destroy\<close> on nothing. Move assignment invokes \<open>destroy\<close> once, on the
  handle the destination held before the move; so the transferred handle is not destroyed
  by the move itself when it differs from that handle.
\<close>

theorem move_transfers_ownership:
  assumes "lookup s other = Some g"
  shows
    "(\<exists>s'. Guard_move H other s = Some s'
        \<and> getHandle s' (length (objects s)) = Some (m_handle g)
        \<and> getHandle s' other = Some (null_handle H)
        \<and> destroyed s' = destroyed s)
     \<and> (lookup s this = Some g0 \<and> this \<noteq> other \<longrightarrow>
         (\<exists>s'. move_assign H this other s = Some s'
            \<and> getHandle s' this = Some (m_handle g)
            \<and> getHandle s' other = Some (null_handle H)
            \<and> destroyed s' = destroyed s @ [m_handle g0]
            \<and> (m_handle g \<noteq> m_handle g0 \<longrightarrow>
                 m_handle g \<notin> set (drop (length (destroyed s)) (destroyed s')))))"
  using assms
  by (auto simp add: move_assign_def release_def reset_def lookup_def store_def call_destroy_def
        getHandle_def Guard_move_def allocate_def Let_def nth_append nth_list_update
        split: if_splits)

theorem move_transfers_ownership_witness:
  "lookup (Guard_adopt 7 (Guard_adopt 5 (init 0))) 1 = Some \<lparr>m_handle = 7 :: nat\<rparr>
   \<and> lookup (Guard_adopt 7 (Guard_adopt 5 (init 0))) 0 = Some \<lparr>m_handle = 5 :: nat\<rparr>
   \<and> (0 :: nat) \<noteq> 1
   \<and> m_handle \<lparr>m_handle = 7 :: nat\<rparr> \<noteq> m_handle \<lparr>m_handle = 5 :: nat\<rparr>
   \<and> map_option owned (Guard_move name_allocator 1 (Guard_adopt 7 (Guard_adopt 5 (init 0))))
       = Some [5, 0, 7]
   \<and> map_option owned (move_assign name_allocator 0 1 (Guard_adopt 7 (Guard_adopt 5 (init 0))))
       = Some [7, 0]
   \<and> map_option destroyed
        (move_assign name_allocator 0 1 (Guard_adopt 7 (Guard_adopt 5 (init 0)))) = Some [5]"
  using move_transfers_ownership
    [of "Guard_adopt 7 (Guard_adopt 5 (init 0))" 1 "\<lparr>m_handle = 7\<rparr>" name_allocator 0
        "\<lparr>m_handle = 5\<rparr>"]
  by (simp add: guard_defs)

subsection \<open>The null handle state\<close>

text \<open>
  C4: for a Guard that holds the default (null) handle, the destructor, \<open>reset\<close> with any
  new handle, and move assignment into it from any live Guard each invoke
  \<open>HandleType::destroy\<close> once, on the null handle, and on no other handle.
\<close>

theorem null_guard_destroys_only_null:
  assumes "getHandle s this = Some (null_handle H)"
  shows
    "map_option destroyed (Guard_dtor H this s) = Some (destroyed s @ [null_handle H])
     \<and> map_option destroyed (reset H this h s) = Some (destroyed s @ [null_handle H])
     \<and> (lookup s other \<noteq> None \<longrightarrow>
          map_option destroyed (move_assign H this other s) =
            Some (destroyed s @ [null_handle H]))"
  using assms
  by (auto simp add: move_assign_def release_def reset_def lookup_def store_def call_destroy_def
        getHandle_def Guard_dtor_def Let_def nth_list_update split: if_splits)

theorem null_guard_destroys_only_null_witness:
  "getHandle (Guard_adopt 7 (Guard_adopt 0 (init 0))) 0 = Some (null_handle name_allocator)
   \<and> lookup (Guard_adopt (7 :: nat) (Guard_adopt 0 (init (0 :: nat)))) 1 \<noteq> None
   \<and> map_option destroyed
        (Guard_dtor name_allocator 0 (Guard_adopt 7 (Guard_adopt 0 (init 0)))) = Some [0]
   \<and> map_option destroyed
        (reset name_allocator 0 9 (Guard_adopt 7 (Guard_adopt 0 (init 0)))) = Some [0]
   \<and> map_option destroyed
        (move_assign name_allocator 0 1 (Guard_adopt 7 (Guard_adopt 0 (init 0)))) = Some [0]"
  using null_guard_destroys_only_null
    [of "Guard_adopt 7 (Guard_adopt 0 (init 0))" 0 name_allocator 9 1]
  by (simp add: guard_defs)

subsection \<open>Self move assignment\<close>

text \<open>
  C10: move assignment of a live Guard to itself leaves every Guard as it was, so the
  Guard manages the handle it managed before; the one call of \<open>HandleType::destroy\<close> that
  it makes is on the default (null) handle, never on the handle the Guard manages when
  that is a live one.
\<close>

theorem self_move_assign_identity:
  assumes "lookup s this = Some g"
  shows
    "move_assign H this this s = Some (call_destroy H (null_handle H) s)
     \<and> objects (call_destroy H (null_handle H) s) = objects s
     \<and> getHandle (call_destroy H (null_handle H) s) this = Some (m_handle g)
     \<and> destroyed (call_destroy H (null_handle H) s) = destroyed s @ [null_handle H]
     \<and> (m_handle g \<noteq> null_handle H \<longrightarrow>
          m_handle g \<notin> set (drop (length (destroyed s))
                                  (destroyed (call_destroy H (null_handle H) s))))"
  using assms
  by (auto simp add: move_assign_def release_def reset_def lookup_def store_def call_destroy_def
        getHandle_def Let_def list_update_same_conv split: if_splits)

theorem self_move_assign_identity_witness:
  "lookup (Guard_adopt 7 (init 0)) 0 = Some \<lparr>m_handle = 7 :: nat\<rparr>
   \<and> m_handle \<lparr>m_handle = 7 :: nat\<rparr> \<noteq> null_handle name_allocator
   \<and> move_assign name_allocator 0 0 (Guard_adopt 7 (init 0)) =
       Some \<lparr>objects = [Some \<lparr>m_handle = 7\<rparr>], world = 0, destroyed = [0]\<rparr>"
  using self_move_assign_identity [of "Guard_adopt 7 (init 0)" 0 "\<lparr>m_handle = 7\<rparr>" name_allocator]
  by (simp add: guard_defs)

section \<open>Properties of the buffer and vertex array wrappers\<close>

subsection \<open>Enumerator values\<close>

text \<open>
  C5: the underlying value of every enumerator is the OpenGL constant it stands in for.
  In \<open>BufferHandle\<close>: the nine enumerators of \<open>Parameter\<close> (\<open>Size\<close> is \<open>0x8764\<close>,
  \<open>GL_BUFFER_SIZE\<close>), the three of \<open>AccessMode\<close> (\<open>read_only\<close> is \<open>0x88B8\<close>, \<open>GL_READ_ONLY\<close>),
  the nine of \<open>AccessFlags\<close>, the nine of \<open>Usage\<close>, the seven of \<open>StorageFlags\<close> (\<open>map_read\<close> is
  \<open>0x0001\<close>, \<open>GL_MAP_READ_BIT\<close>) and the four of \<open>IndexedTarget\<close>; \<open>none\<close> stands for no bit
  and is 0. In \<open>VertexArray\<close>: every enumerator of \<open>AttribType\<close> is the macro it is
  initialised with, whatever the header defines it as, \<open>float_\<close> being \<open>GL_FLOAT\<close>, and
  \<open>AttribSize::one\<close> to \<open>four\<close> are 1 to 4.
\<close>

theorem enumerator_values:
  "Parameter_underlying Parameter_Access = GL_BUFFER_ACCESS
   \<and> Parameter_underlying Parameter_AccessFlags = GL_BUFFER_ACCESS_FLAGS
   \<and> Parameter_underlying Parameter_Immutable = GL_BUFFER_IMMUTABLE_STORAGE
   \<and> Parameter_underlying Parameter_Mapped = GL_BUFFER_MAPPED
   \<and> Parameter_underlying Parameter_MapLength = GL_BUFFER_MAP_LENGTH
   \<and> Parameter_underlying Parameter_MapOffset = GL_BUFFER_MAP_OFFSET
   \<and> Parameter_underlying Parameter_Size = GL_BUFFER_SIZE
   \<and> Parameter_underlying Parameter_StorageFlags = GL_BUFFER_STORAGE_FLAGS
   \<and> Parameter_underlying Parameter_Usage = GL_BUFFER_USAGE
   \<and> Parameter_underlying Parameter_Size = 0x8764
   \<and> AccessMode_underlying AccessMode_read_only = GL_READ_ONLY
   \<and> AccessMode_underlying AccessMode_write_only = GL_WRITE_ONLY
   \<and> AccessMode_underlying AccessMode_read_write = GL_READ_WRITE
   \<and> AccessMode_underlying AccessMode_read_only = 0x88B8
   \<and> AccessFlags_underlying AccessFlags_none = 0
   \<and> AccessFlags_underlying AccessFlags_read = GL_MAP_READ_BIT
   \<and> AccessFlags_underlying AccessFlags_write = GL_MAP_WRITE_BIT
   \<and> AccessFlags_underlying AccessFlags_persistent = GL_MAP_PERSISTENT_BIT
   \<and> AccessFlags_underlying AccessFlags_coherent = GL_MAP_COHERENT_BIT
   \<and> AccessFlags_underlying AccessFlags_invalidate_range = GL_MAP_INVALIDATE_RANGE_BIT
   \<and> AccessFlags_underlying AccessFlags_invalidate_buffer = GL_MAP_INVALIDATE_BUFFER_BIT
   \<and> AccessFlags_underlying AccessFlags_flush_explicit = GL_MAP_FLUSH_EXPLICIT_BIT
   \<and> AccessFlags_underlying AccessFlags_unsynchronized = GL_MAP_UNSYNCHRONIZED_BIT
   \<and> Usage_underlying Usage_static_draw = GL_STATIC_DRAW
   \<and> Usage_underlying Usage_static_read = GL_STATIC_READ
   \<and> Usage_underlying Usage_static_copy = GL_STATIC_COPY
   \<and> Usage_underlying Usage_dynamic_draw = GL_DYNAMIC_DRAW
   \<and> Usage_underlying Usage_dynamic_read = GL_DYNAMIC_READ
   \<and> Usage_underlying Usage_dynamic_copy = GL_DYNAMIC_COPY
   \<and> Usage_underlying Usage_stream_draw = GL_STREAM_DRAW
   \<and> Usage_underlying Usage_stream_read = GL_STREAM_READ
   \<and> Usage_underlying Usage_stream_copy = GL_STREAM_COPY
   \<and> StorageFlags_underlying StorageFlags_none = 0
   \<and> StorageFlags_underlying StorageFlags_dynamic_storage = GL_DYNAMIC_STORAGE_BIT
   \<and> StorageFlags_underlying StorageFlags_map_read = GL_MAP_READ_BIT
   \<and> StorageFlags_underlying StorageFlags_map_write = GL_MAP_WRITE_BIT
   \<and> StorageFlags_underlying StorageFlags_map_persistent = GL_MAP_PERSISTENT_BIT
   \<and> StorageFlags_underlying StorageFlags_map_coherent = GL_MAP_COHERENT_BIT
   \<and> StorageFlags_underlying StorageFlags_client_storage = GL_CLIENT_STORAGE_BIT
   \<and> StorageFlags_underlying StorageFlags_map_read = 0x0001
   \<and> IndexedTarget_underlying IndexedTarget_atomic_counter = GL_ATOMIC_COUNTER_BUFFER
   \<and> IndexedTarget_underlying IndexedTarget_transform_feedback = GL_TRANSFORM_FEEDBACK_BUFFER
   \<and> IndexedTarget_underlying IndexedTarget_uniform = GL_UNIFORM_BUFFER
   \<and> IndexedTarget_underlying IndexedTarget_shader_storage = GL_SHADER_STORAGE_BUFFER
   \<and> AttribType_underlying gl AttribType_byte = GL_BYTE gl
   \<and> AttribType_underlying gl AttribType_ubyte = GL_UNSIGNED_BYTE gl
   \<and> AttribType_underlying gl AttribType_short = GL_SHORT gl
   \<and> AttribType_underlying gl AttribType_ushort = GL_UNSIGNED_SHORT gl
   \<and> AttribType_underlying gl AttribType_int = GL_INT gl
   \<and> AttribType_underlying gl AttribType_uint = GL_UNSIGNED_INT gl
   \<and> AttribType_underlying gl AttribType_fixed = GL_FIXED gl
   \<and> AttribType_underlying gl AttribType_float = GL_FLOAT gl
   \<and> AttribType_underlying gl AttribType_half_float = GL_HALF_FLOAT gl
   \<and> AttribType_underlying gl AttribType_double = GL_DOUBLE gl
   \<and> AttribType_underlying gl AttribType_int_2_10_10_10_rev = GL_INT_2_10_10_10_REV gl
   \<and> AttribType_underlying gl AttribType_uint_2_10_10_10_rev = GL_UNSIGNED_INT_2_10_10_10_REV gl
   \<and> AttribType_underlying gl AttribType_uint_10f_11f_11f_rev = GL_UNSIGNED_INT_10F_11F_11F_REV gl
   \<and> AttribSize_underlying AttribSize_one = 1
   \<and> AttribSize_underlying AttribSize_two = 2
   \<and> AttribSize_underlying AttribSize_three = 3
   \<and> AttribSize_underlying AttribSize_four = 4"
  by (simp add: GL_BUFFER_SIZE_def GL_READ_ONLY_def GL_MAP_READ_BIT_def GL_BUFFER_ACCESS_def
        GL_BUFFER_ACCESS_FLAGS_def GL_BUFFER_IMMUTABLE_STORAGE_def GL_BUFFER_MAPPED_def
        GL_BUFFER_MAP_LENGTH_def GL_BUFFER_MAP_OFFSET_def GL_BUFFER_STORAGE_FLAGS_def
        GL_BUFFER_USAGE_def GL_WRITE_ONLY_def GL_READ_WRITE_def GL_MAP_WRITE_BIT_def
        GL_MAP_INVALIDATE_RANGE_BIT_def GL_MAP_INVALIDATE_BUFFER_BIT_def
        GL_MAP_FLUSH_EXPLICIT_BIT_def GL_MAP_UNSYNCHRONIZED_BIT_def GL_MAP_PERSISTENT_BIT_def
        GL_MAP_COHERENT_BIT_def GL_DYNAMIC_STORAGE_BIT_def GL_CLIENT_STORAGE_BIT_def
        GL_STREAM_DRAW_def GL_STREAM_READ_def GL_STREAM_COPY_def GL_STATIC_DRAW_def
        GL_STATIC_READ_def GL_STATIC_COPY_def GL_DYNAMIC_DRAW_def GL_DYNAMIC_READ_def
        GL_DYNAMIC_COPY_def GL_ATOMIC_COUNTER_BUFFER_def GL_TRANSFORM_FEEDBACK_BUFFER_def
        GL_UNIFORM_BUFFER_def GL_SHADER_STORAGE_BUFFER_def AccessFlags_none_def
        AccessFlags_read_def AccessFlags_write_def AccessFlags_persistent_def
        AccessFlags_coherent_def AccessFlags_invalidate_range_def
        AccessFlags_invalidate_buffer_def AccessFlags_flush_explicit_def
        AccessFlags_unsynchronized_def StorageFlags_none_def StorageFlags_dynamic_storage_def
        StorageFlags_map_read_def StorageFlags_map_write_def StorageFlags_map_persistent_def
        StorageFlags_map_coherent_def StorageFlags_client_storage_def)

subsection \<open>The flag operators\<close>

text \<open>
  C6: for all values \<open>l\<close> and \<open>r\<close> of \<open>AccessFlags\<close>, and for all values \<open>a\<close> and \<open>b\<close> of
  \<open>StorageFlags\<close>, \<open>operator|\<close> and \<open>operator&\<close> give the value whose underlying \<open>GLenum\<close> is the
  bitwise OR and the bitwise AND of the underlying values of the operands; both operators
  are commutative, \<open>none\<close> is an identity for \<open>operator|\<close> and a zero for \<open>operator&\<close>.
\<close>

theorem flags_algebra:
  "AccessFlags_underlying (AccessFlags_or l r) =
     AccessFlags_underlying l OR AccessFlags_underlying r
   \<and> AccessFlags_underlying (AccessFlags_and l r) =
     AccessFlags_underlying l AND AccessFlags_underlying r
   \<and> AccessFlags_or l r = AccessFlags_or r l
   \<and> AccessFlags_and l r = AccessFlags_and r l
   \<and> AccessFlags_or AccessFlags_none l = l
   \<and> AccessFlags_or l AccessFlags_none = l
   \<and> AccessFlags_and AccessFlags_none l = AccessFlags_none
   \<and> AccessFlags_and l AccessFlags_none = AccessFlags_none
   \<and> StorageFlags_underlying (StorageFlags_or a b) =
     StorageFlags_underlying a OR StorageFlags_underlying b
   \<and> StorageFlags_underlying (StorageFlags_and a b) =
     StorageFlags_underlying a AND StorageFlags_underlying b
   \<and> StorageFlags_or a b = StorageFlags_or b a
   \<and> StorageFlags_and a b = StorageFlags_and b a
   \<and> StorageFlags_or StorageFlags_none a = a
   \<and> StorageFlags_or a StorageFlags_none = a
   \<and> StorageFlags_and StorageFlags_none a = StorageFlags_none
   \<and> StorageFlags_and a StorageFlags_none = StorageFlags_none"
  by (simp add: AccessFlags_or_def AccessFlags_and_def AccessFlags_none_def
        StorageFlags_or_def StorageFlags_and_def StorageFlags_none_def
        or.commute and.commute)

subsection \<open>The overloads that take a Range\<close>

text \<open>
  C7: each overload that takes a \<open>Range\<close> is the base member function applied to
  \<open>range.offset\<close> and \<open>range.size\<close> with the same remaining arguments, whatever the base
  member functions do: \<open>write\<close>, \<open>read\<close>, \<open>mapRange\<close> and \<open>bindRange\<close>.
\<close>

theorem range_overloads:
  "write_Range M this r data w = write' M this (offset r) (size' r) data w
   \<and> read_Range M this r data w = read M this (offset r) (size' r) data w
   \<and> mapRange_Range M this r access w = mapRange M this (offset r) (size' r) access w
   \<and> bindRange_Range M this target index r w =
        bindRange M this target index (offset r) (size' r) w"
  by (simp add: write_Range_def read_Range_def mapRange_Range_def bindRange_Range_def)

subsection \<open>bindRanges\<close>

lemma bindRanges_loop_eq:
  "bindRanges_loop xs v =
     v\<lparr>buffers := buffers v @ map (\<lambda>x. getName (fst x)) xs,
       offsets := offsets v @ map (\<lambda>x. offset (snd x)) xs,
       sizes := sizes v @ map (\<lambda>x. size' (snd x)) xs,
       count := count v + word_of_nat (length xs)\<rparr>"
  by (induction xs v rule: bindRanges_loop.induct) simp_all

lemma sint_count: "n < 2 ^ 31 \<Longrightarrow> sint (word_of_nat n :: GLsizei) = int n"
  by (simp add: signed_of_nat signed_take_bit_int_eq_self)

text \<open>
  C9, as the specification states it, fails for an iterator range of \<open>2 ^ 31\<close> elements or
  more: \<open>count\<close> is a \<open>GLsizei\<close>, and after \<open>2 ^ 31\<close> increments its value is \<open>- 2 ^ 31\<close>, not
  the number of elements.
\<close>

theorem bindRanges_count_wraps:
  "length (replicate (2 ^ 31) (\<lparr>getName = 0\<rparr>, \<lparr>offset = 0, size' = 0\<rparr>)) = 2 ^ 31
   \<and> sint (call_count (hd (bindRanges IndexedTarget_uniform 0
             (replicate (2 ^ 31) (\<lparr>getName = 0\<rparr>, \<lparr>offset = 0, size' = 0\<rparr>))))) = - (2 ^ 31)"
proof -
  have "call_count (hd (bindRanges IndexedTarget_uniform 0
             (replicate (2 ^ 31) (\<lparr>getName = 0\<rparr>, \<lparr>offset = 0, size' = 0\<rparr>)))) =
        word_of_nat (2 ^ 31)"
    by (simp only: bindRanges_def bindRanges_loop_eq length_replicate Let_def list.sel
          s_bindRange_call.sel bindRanges_locals.simps add_0)
  moreover have "sint (word_of_nat (2 ^ 31) :: GLsizei) = - (2 ^ 31)"
    by (simp add: signed_of_nat)
  ultimately show ?thesis
    by (simp only: length_replicate simp_thms)
qed

text \<open>
  C9, amended: for every iterator range of fewer than \<open>2 ^ 31\<close> pairs of a BufferHandle and
  a Range, \<open>bindRanges(target, first_binding, begin, end)\<close> invokes \<open>s_bindRange\<close> exactly
  once, with \<open>count\<close> equal to the number of elements of the range and with three arrays
  that list, in iteration order, the buffer name, the range offset and the range size of
  each element; an empty iterator range yields a single call with count zero.
\<close>

theorem bindRanges_single_call:
  assumes "length xs < 2 ^ 31"
  shows
    "bindRanges target first_binding xs =
       [s_bindRange target first_binding (word_of_nat (length xs))
          (map (\<lambda>x. getName (fst x)) xs)
          (map (\<lambda>x. offset (snd x)) xs)
          (map (\<lambda>x. size' (snd x)) xs)]
     \<and> sint (word_of_nat (length xs) :: GLsizei) = int (length xs)
     \<and> bindRanges target first_binding [] = [s_bindRange target first_binding 0 [] [] []]"
  using assms by (simp add: bindRanges_def bindRanges_loop_eq sint_count)

theorem bindRanges_single_call_witness:
  "length [(\<lparr>getName = 7\<rparr>, \<lparr>offset = 0, size' = 16\<rparr>),
           (\<lparr>getName = 9\<rparr>, \<lparr>offset = 16, size' = 32\<rparr>)] < 2 ^ 31
   \<and> bindRanges IndexedTarget_uniform 3
        [(\<lparr>getName = 7\<rparr>, \<lparr>offset = 0, size' = 16\<rparr>),
         (\<lparr>getName = 9\<rparr>, \<lparr>offset = 16, size' = 32\<rparr>)] =
       [s_bindRange IndexedTarget_uniform 3 2 [7, 9] [0, 16] [16, 32]]"
  using bindRanges_single_call
    [of "[(\<lparr>getName = 7\<rparr>, \<lparr>offset = 0, size' = 16\<rparr>),
          (\<lparr>getName = 9\<rparr>, \<lparr>offset = 16, size' = 32\<rparr>)]" IndexedTarget_uniform 3]
  by simp

end
